theory Spec2Isabelle
  imports Main "HOL-Library.Char_ord" "HOL-Library.List_Lexorder"
begin

section \<open>Zero-click search demo: the search-volume pages (versions 2 and 3)\<close>

text \<open>
  The repository holds three Streamlit scripts. Version 1 only draws static charts.
  Versions 2 and 3 keep a table of monthly search volumes (\<open>df_search\<close>), filter it by
  a term chosen on the page, and accept an uploaded CSV file; version 3 also queries a
  trends service. A script has no functions: it is a sequence of page sections, run from
  top to bottom on every interaction. Each section is embedded here as a function from
  the values it reads (widget values, the current \<open>df_search\<close>, what the outside world
  answers) to what it shows on the page, the exception it ends in (if any) and the new
  \<open>df_search\<close>.

  Version 2 is the program that runs. The file of version 3 breaks off inside a string
  literal in its upload section (line 147: the call of \<open>st.success\<close> opens a text with
  the word Dataset and never closes it), so Python rejects the file as a whole and none
  of its sections is ever executed. Of version 3 only the sample data, the start of the page and the local
  section are written down here, as the text of the file has them, next to their
  version 2 counterparts; its trends section and its upload section are not embedded.

  The static elements of the page (titles, the survey bar chart, the slider text) read
  no data and are left out of the page log.
\<close>

subsection \<open>Tables, exceptions, page elements\<close>

text \<open>
  A cell of a pandas table as these scripts meet it: an integer, a text, or the missing
  value. A table is its column names and its rows. Floating-point columns are outside
  the model.
\<close>

datatype cell = IntCell int | StrCell string | NaN

record dataframe =
  columns :: "string list"
  rows :: "cell list list"

text \<open>Python exceptions the embedded sections can meet.\<close>

datatype exn =
    FileNotFoundError
  | EmptyDataError
  | ParserError
  | KeyError string
  | AttributeError
  | ValueError
  | TypeError

text \<open>A figure built by \<open>px.line\<close>: the table it plots, the two plotted columns, the title.\<close>

record figure =
  fig_data :: dataframe
  fig_x :: string
  fig_y :: string
  fig_title :: string

text \<open>
  What a section puts on the page. \<open>WriteImpact t\<close> is the "Estimated Zero-Click Impact"
  sentence that \<open>st.write\<close> shows for term \<open>t\<close>; the number in it is a floating-point
  mean and is not modelled.
\<close>

datatype event =
    Error string
  | Warning string
  | Info string
  | Success string
  | PlotlyChart figure
  | WriteImpact string

text \<open>
  The result of running a section: the elements shown, in order, and the exception that
  ended the section, if one did.
\<close>

type_synonym run = "event list \<times> exn option"

subsection \<open>Strings\<close>

text \<open>
  \<open>str.lower()\<close> on ASCII text: the letters A to Z are mapped to a to z, every other
  character is kept. (Python lowers non-ASCII letters too; the model covers ASCII text.)
\<close>

definition ascii_uppercase :: string where
  "ascii_uppercase = ''ABCDEFGHIJKLMNOPQRSTUVWXYZ''"

definition ascii_lowercase :: string where
  "ascii_lowercase = ''abcdefghijklmnopqrstuvwxyz''"

definition lower_char :: "char \<Rightarrow> char" where
  "lower_char c =
     (case map_of (zip ascii_uppercase ascii_lowercase) c of Some d \<Rightarrow> d | None \<Rightarrow> c)"

definition lower :: "string \<Rightarrow> string" where
  "lower s = map lower_char s"

text \<open>\<open>'{s}'\<close> inside an f-string.\<close>

definition quoted :: "string \<Rightarrow> string" where
  "quoted s = [CHR 0x27] @ s @ [CHR 0x27]"

subsection \<open>The pandas operations of the filter line\<close>

text \<open>\<open>df[c]\<close>: the column named \<open>c\<close>, or \<open>KeyError\<close>.\<close>

fun col_index :: "string \<Rightarrow> string list \<Rightarrow> nat option" where
  "col_index c [] = None"
| "col_index c (d # ds) =
     (if c = d then Some 0 else map_option Suc (col_index c ds))"

definition cell_at :: "cell list \<Rightarrow> nat \<Rightarrow> cell" where
  "cell_at r i = (if i < length r then r ! i else NaN)"

definition getitem :: "dataframe \<Rightarrow> string \<Rightarrow> exn + cell list" where
  "getitem df c =
     (case col_index c (columns df) of
        None \<Rightarrow> Inl (KeyError c)
      | Some i \<Rightarrow> Inr (map (\<lambda>r. cell_at r i) (rows df)))"

text \<open>
  \<open>series.str.lower()\<close>. The \<open>.str\<close> accessor raises \<open>AttributeError\<close> on a column that
  holds no text (a numeric or all-missing column); an empty column is accepted. On a
  text column, text is lowered and every other value becomes missing.
\<close>

fun is_str :: "cell \<Rightarrow> bool" where
  "is_str (StrCell s) = True"
| "is_str _ = False"

fun lower_cell :: "cell \<Rightarrow> cell" where
  "lower_cell (StrCell s) = StrCell (lower s)"
| "lower_cell _ = NaN"

definition str_lower :: "cell list \<Rightarrow> exn + cell list" where
  "str_lower col =
     (if col = [] \<or> list_ex is_str col then Inr (map lower_cell col)
      else Inl AttributeError)"

text \<open>\<open>series == s\<close> for a text \<open>s\<close>: which cells are equal to it.\<close>

definition eq_scalar :: "cell list \<Rightarrow> string \<Rightarrow> bool list" where
  "eq_scalar col s = map (\<lambda>c. c = StrCell s) col"

text \<open>\<open>df[mask]\<close>: the rows whose entry in the boolean list is true, in the table's order.\<close>

definition select_rows :: "dataframe \<Rightarrow> bool list \<Rightarrow> dataframe" where
  "select_rows df keep = df\<lparr>rows := map fst (filter snd (zip (rows df) keep))\<rparr>"

text \<open>\<open>df.empty\<close>: no rows or no columns.\<close>

definition empty_df :: "dataframe \<Rightarrow> bool" where
  "empty_df df = (rows df = [] \<or> columns df = [])"

text \<open>
  The filter line of both versions:
  \<^verbatim>\<open>df_search[df_search["Search Term"].str.lower() == selected_term.lower()]\<close>
\<close>

definition filtered_df :: "dataframe \<Rightarrow> string \<Rightarrow> exn + dataframe" where
  "filtered_df df_search selected_term =
     (case getitem df_search ''Search Term'' of
        Inl e \<Rightarrow> Inl e
      | Inr col \<Rightarrow>
          (case str_lower col of
             Inl e \<Rightarrow> Inl e
           | Inr lowered \<Rightarrow>
               Inr (select_rows df_search (eq_scalar lowered (lower selected_term)))))"

text \<open>
  \<open>px.line(df, x=..., y=..., title=...)\<close>: the figure, or \<open>ValueError\<close> when a plotted
  column is not a column of the table.
\<close>

definition px_line :: "dataframe \<Rightarrow> string \<Rightarrow> string \<Rightarrow> string \<Rightarrow> exn + figure" where
  "px_line df xcol ycol ttl =
     (if xcol \<in> set (columns df) \<and> ycol \<in> set (columns df)
      then Inr \<lparr>fig_data = df, fig_x = xcol, fig_y = ycol, fig_title = ttl\<rparr>
      else Inl ValueError)"

text \<open>
  The impact estimate \<^verbatim>\<open>int((filtered_df["Search Volume"] * 0.4).mean())\<close>: multiplying
  a text by 0.4 raises \<open>TypeError\<close>; the mean skips missing values and is itself missing
  when no number is left, and \<open>int\<close> of it raises \<open>ValueError\<close>. Its value is a
  floating-point number and is not computed here.
\<close>

fun is_int :: "cell \<Rightarrow> bool" where
  "is_int (IntCell n) = True"
| "is_int _ = False"

definition zero_click_impact :: "dataframe \<Rightarrow> exn + unit" where
  "zero_click_impact df =
     (case getitem df ''Search Volume'' of
        Inl e \<Rightarrow> Inl e
      | Inr col \<Rightarrow>
          if list_ex is_str col then Inl TypeError
          else if list_ex is_int col then Inr ()
          else Inl ValueError)"

subsection \<open>Version 2: the search-volume section\<close>

text \<open>
  Lines 75 to 96 of version 2. The empty string is what both term widgets hold when
  nothing is chosen; Python treats it as false.
\<close>

definition v2_chart_title :: "string \<Rightarrow> string" where
  "v2_chart_title selected_term = ''Monthly Search Volume for '' @ quoted selected_term"

definition v2_no_data :: "string \<Rightarrow> string" where
  "v2_no_data selected_term =
     ''No data found for '' @ quoted selected_term
       @ ''. Please select another term or ensure data is available.''"

definition v2_select_prompt :: string where
  "v2_select_prompt = ''Select or enter a search term to view its monthly search volume trends.''"

definition v2_search_volume :: "dataframe \<Rightarrow> string \<Rightarrow> run" where
  "v2_search_volume df_search selected_term =
     (if selected_term \<noteq> [] then
        (case filtered_df df_search selected_term of
           Inl e \<Rightarrow> ([], Some e)
         | Inr fdf \<Rightarrow>
             if \<not> empty_df fdf then
               (case px_line fdf ''Month'' ''Search Volume'' (v2_chart_title selected_term) of
                  Inl e \<Rightarrow> ([], Some e)
                | Inr fig_search \<Rightarrow>
                    (case zero_click_impact fdf of
                       Inl e \<Rightarrow> ([PlotlyChart fig_search], Some e)
                     | Inr _ \<Rightarrow> ([PlotlyChart fig_search, WriteImpact selected_term], None)))
             else ([Warning (v2_no_data selected_term)], None))
      else ([Info v2_select_prompt], None))"

text \<open>Line 71: the typed term, when there is one, replaces the selected one.\<close>

definition v2_selected_term :: "string \<Rightarrow> string \<Rightarrow> string" where
  "v2_selected_term selected_term custom_term =
     (if custom_term \<noteq> [] then custom_term else selected_term)"

subsection \<open>The sample data\<close>

definition required_columns :: "string list" where
  "required_columns = [''Search Term'', ''Month'', ''Search Volume'']"

text \<open>
  \<open>pd.DataFrame(d)\<close> for a dictionary of columns: the keys become the column names and
  row \<open>i\<close> holds entry \<open>i\<close> of every column. Columns of different lengths raise
  \<open>ValueError\<close>.
\<close>

definition DataFrame :: "(string \<times> cell list) list \<Rightarrow> exn + dataframe" where
  "DataFrame d =
     (case d of
        [] \<Rightarrow> Inr \<lparr>columns = [], rows = []\<rparr>
      | (k, col) # rest \<Rightarrow>
          if list_all (\<lambda>(k', col'). length col' = length col) rest
          then Inr \<lparr>columns = map fst d,
                    rows = map (\<lambda>i. map (\<lambda>(k', col'). col' ! i) d) [0..<length col]\<rparr>
          else Inl ValueError)"

definition v2_sample_data :: "(string \<times> cell list) list" where
  "v2_sample_data =
     [(''Search Term'', map StrCell
         [''best laptops'', ''best laptops'', ''best laptops'',
          ''python tutorial'', ''python tutorial'', ''python tutorial'',
          ''cheap flights'', ''cheap flights'', ''cheap flights'']),
      (''Month'', map StrCell
         [''2025-01'', ''2025-02'', ''2025-03'', ''2025-01'', ''2025-02'', ''2025-03'',
          ''2025-01'', ''2025-02'', ''2025-03'']),
      (''Search Volume'', map IntCell
         [120000, 130000, 125000, 80000, 85000, 90000, 200000, 210000, 190000])]"

definition v3_sample_data :: "(string \<times> cell list) list" where
  "v3_sample_data =
     [(''Search Term'', map StrCell
         [''best laptops'', ''best laptops'', ''best laptops'',
          ''python tutorial'', ''python tutorial'', ''python tutorial'']),
      (''Month'', map StrCell
         [''2025-01'', ''2025-02'', ''2025-03'', ''2025-01'', ''2025-02'', ''2025-03'']),
      (''Search Volume'', map IntCell
         [120000, 130000, 125000, 80000, 85000, 90000])]"

text \<open>
  The data model's view of such a table: a Dataset is a list of volume records (term,
  month, volume), and \<open>dataset\<close> is the table with the three required columns that holds
  them, one row per record.
\<close>

type_synonym volume_record = "string \<times> string \<times> int"

fun record_row :: "volume_record \<Rightarrow> cell list" where
  "record_row (t, m, v) = [StrCell t, StrCell m, IntCell v]"

definition dataset :: "volume_record list \<Rightarrow> dataframe" where
  "dataset recs = \<lparr>columns = required_columns, rows = map record_row recs\<rparr>"

definition v2_sample_records :: "volume_record list" where
  "v2_sample_records =
     [(''best laptops'', ''2025-01'', 120000),
      (''best laptops'', ''2025-02'', 130000),
      (''best laptops'', ''2025-03'', 125000),
      (''python tutorial'', ''2025-01'', 80000),
      (''python tutorial'', ''2025-02'', 85000),
      (''python tutorial'', ''2025-03'', 90000),
      (''cheap flights'', ''2025-01'', 200000),
      (''cheap flights'', ''2025-02'', 210000),
      (''cheap flights'', ''2025-03'', 190000)]"

definition v3_sample_records :: "volume_record list" where
  "v3_sample_records = take 6 v2_sample_records"

text \<open>Case-insensitive match of a record's term with a query term.\<close>

definition matches :: "string \<Rightarrow> volume_record \<Rightarrow> bool" where
  "matches q r = (lower (fst r) = lower q)"

subsection \<open>Writing and reading CSV text\<close>

text \<open>
  \<open>df.to_csv(path, index=False)\<close> and \<open>pd.read_csv(path)\<close> are pandas library calls.
  They are modelled on plain comma-separated text: one line per row, ended by a line
  feed, the header line first.

  Written: an integer in decimal, a missing value as the empty field, a text as it is,
  inside double quotes (with every double quote doubled) when it holds a comma, a
  double quote or a line break.

  Read: blank lines are skipped; a text without any line raises \<open>EmptyDataError\<close>; the
  first line gives the column names; a row with more fields than the header raises
  \<open>ParserError\<close>, a shorter row is filled with missing values. A column whose fields all
  are integers (an optional sign, then digits) is a column of integers; in any other
  column a field that is one of pandas' missing-value spellings is the missing value
  and every other field is a text. Quoted fields and floating-point columns are not
  covered by the reader.
\<close>

definition digit_chars :: string where
  "digit_chars = ''0123456789''"

fun show_nat :: "nat \<Rightarrow> string" where
  "show_nat n =
     (if n < 10 then [digit_chars ! n] else show_nat (n div 10) @ [digit_chars ! (n mod 10)])"

declare show_nat.simps [simp del]

definition show_int :: "int \<Rightarrow> string" where
  "show_int i = (if i < 0 then ''-'' @ show_nat (nat (- i)) else show_nat (nat i))"

definition needs_quotes :: "string \<Rightarrow> bool" where
  "needs_quotes s = list_ex (\<lambda>c. c \<in> set [CHR '','', CHR 0x22, CHR 0x0A, CHR 0x0D]) s"

definition csv_field :: "string \<Rightarrow> string" where
  "csv_field s =
     (if needs_quotes s
      then [CHR 0x22] @ concat (map (\<lambda>c. if c = CHR 0x22 then [c, c] else [c]) s) @ [CHR 0x22]
      else s)"

fun show_cell :: "cell \<Rightarrow> string" where
  "show_cell (IntCell n) = show_int n"
| "show_cell (StrCell s) = csv_field s"
| "show_cell NaN = []"

fun join :: "string \<Rightarrow> string list \<Rightarrow> string" where
  "join sep [] = []"
| "join sep [f] = f"
| "join sep (f # g # fs) = f @ sep @ join sep (g # fs)"

definition csv_line :: "string list \<Rightarrow> string" where
  "csv_line flds = join '','' flds @ [CHR 0x0A]"

definition to_csv :: "dataframe \<Rightarrow> string" where
  "to_csv df =
     csv_line (map csv_field (columns df)) @ concat (map (\<lambda>r. csv_line (map show_cell r)) (rows df))"

fun split_on :: "char \<Rightarrow> string \<Rightarrow> string list" where
  "split_on d [] = [[]]"
| "split_on d (c # cs) =
     (if c = d then [] # split_on d cs
      else (case split_on d cs of [] \<Rightarrow> [[c]] | f # fs \<Rightarrow> (c # f) # fs))"

definition is_digit :: "char \<Rightarrow> bool" where
  "is_digit c = (c \<in> set digit_chars)"

definition is_int_literal :: "string \<Rightarrow> bool" where
  "is_int_literal s =
     (case s of
        [] \<Rightarrow> False
      | c # cs \<Rightarrow>
          if c = CHR ''-'' \<or> c = CHR ''+'' then cs \<noteq> [] \<and> list_all is_digit cs
          else list_all is_digit s)"

definition digit_val :: "char \<Rightarrow> nat" where
  "digit_val c = (case map_of (zip digit_chars [0, 1, 2, 3, 4, 5, 6, 7, 8, 9]) c of
                    Some n \<Rightarrow> n | None \<Rightarrow> 0)"

definition read_nat :: "string \<Rightarrow> nat" where
  "read_nat s = foldl (\<lambda>a c. 10 * a + digit_val c) 0 s"

definition read_int :: "string \<Rightarrow> int" where
  "read_int s =
     (case s of
        [] \<Rightarrow> 0
      | c # cs \<Rightarrow>
          if c = CHR ''-'' then - int (read_nat cs)
          else if c = CHR ''+'' then int (read_nat cs)
          else int (read_nat s))"

definition na_values :: "string list" where
  "na_values =
     [[], ''#N/A'', ''#N/A N/A'', ''#NA'', ''-1.#IND'', ''-1.#QNAN'', ''-NaN'', ''-nan'',
      ''1.#IND'', ''1.#QNAN'', ''<NA>'', ''N/A'', ''NA'', ''NULL'', ''NaN'', ''None'',
      ''n/a'', ''nan'', ''null'']"

definition read_text_cell :: "string \<Rightarrow> cell" where
  "read_text_cell f = (if f \<in> set na_values then NaN else StrCell f)"

definition pad_row :: "nat \<Rightarrow> string list \<Rightarrow> string list" where
  "pad_row n flds = flds @ replicate (n - length flds) []"

definition int_column :: "string list list \<Rightarrow> nat \<Rightarrow> bool" where
  "int_column body i = (body \<noteq> [] \<and> list_all (\<lambda>r. is_int_literal (r ! i)) body)"

definition read_row :: "string list list \<Rightarrow> string list \<Rightarrow> cell list" where
  "read_row body r =
     map (\<lambda>i. if int_column body i then IntCell (read_int (r ! i)) else read_text_cell (r ! i))
       [0..<length r]"

definition read_csv :: "string \<Rightarrow> exn + dataframe" where
  "read_csv text =
     (case filter (\<lambda>l. l \<noteq> []) (split_on (CHR 0x0A) text) of
        [] \<Rightarrow> Inl EmptyDataError
      | header # lines \<Rightarrow>
          (let names = split_on (CHR '','') header;
               body = map (split_on (CHR '','')) lines
           in if list_ex (\<lambda>r. length names < length r) body then Inl ParserError
              else (let padded = map (pad_row (length names)) body
                    in Inr \<lparr>columns = names, rows = map (read_row padded) padded\<rparr>)))"

text \<open>
  The files of the working directory, by name. Reading a name that is not there raises
  \<open>FileNotFoundError\<close>.
\<close>

type_synonym files = "string \<rightharpoonup> string"

definition write_csv_file :: "dataframe \<Rightarrow> string \<Rightarrow> files \<Rightarrow> files" where
  "write_csv_file df path fs = fs(path \<mapsto> to_csv df)"

definition read_csv_file :: "files \<Rightarrow> string \<Rightarrow> exn + dataframe" where
  "read_csv_file fs path =
     (case fs path of None \<Rightarrow> Inl FileNotFoundError | Some text \<Rightarrow> read_csv text)"

subsection \<open>Start of the page: writing the sample data and reading it back\<close>

text \<open>
  Both versions build the table from the sample dictionary, write it to
  \<open>search_volume_data.csv\<close> and read the file back; only \<open>FileNotFoundError\<close> is handled
  (version 2, lines 50 to 60; version 3, lines 58 to 68):
  \<^verbatim>\<open>
  df_search = pd.DataFrame(sample_data)
  df_search.to_csv("search_volume_data.csv", index=False)
  try:
      df_search = pd.read_csv("search_volume_data.csv")
  except FileNotFoundError:
      st.error("Search volume dataset not found. Using sample data.")
      df_search = pd.DataFrame(sample_data)
  \<close>
  \<open>between\<close> is what the rest of the machine does to the files after the write and
  before the read; the identity when nothing interferes.
\<close>

definition dataset_path :: string where
  "dataset_path = ''search_volume_data.csv''"

definition dataset_not_found :: string where
  "dataset_not_found = ''Search volume dataset not found. Using sample data.''"

definition load_dataset :: "(string \<times> cell list) list \<Rightarrow> files \<Rightarrow> event list \<times> (exn + dataframe)" where
  "load_dataset sample_data fs =
     (case read_csv_file fs dataset_path of
        Inr df \<Rightarrow> ([], Inr df)
      | Inl e \<Rightarrow>
          if e = FileNotFoundError then ([Error dataset_not_found], DataFrame sample_data)
          else ([], Inl e))"

definition startup ::
  "(string \<times> cell list) list \<Rightarrow> (files \<Rightarrow> files) \<Rightarrow> files \<Rightarrow> event list \<times> (exn + dataframe)" where
  "startup sample_data between fs =
     (case DataFrame sample_data of
        Inl e \<Rightarrow> ([], Inl e)
      | Inr df \<Rightarrow> load_dataset sample_data (between (write_csv_file df dataset_path fs)))"

subsection \<open>The upload section\<close>

text \<open>
  Version 2, lines 120 to 127. The uploaded file is its text, or \<open>None\<close> when nothing is
  uploaded. The options computed on the last line of the accepting branch are not read
  again, and the column they are taken from is there, so the line is left out.
  \<^verbatim>\<open>
  if uploaded_file:
      df_uploaded = pd.read_csv(uploaded_file)
      if all(col in df_uploaded.columns for col in ["Search Term", "Month", "Search Volume"]):
          df_search = df_uploaded
          st.success("Dataset uploaded successfully! Select a search term to visualize.")
          search_terms = df_search["Search Term"].unique().tolist()
      else:
          st.error("Uploaded CSV must contain 'Search Term', 'Month', and 'Search Volume' columns.")
  \<close>
\<close>

definition has_required_columns :: "dataframe \<Rightarrow> bool" where
  "has_required_columns df = list_all (\<lambda>col. col \<in> set (columns df)) required_columns"

definition v2_upload_ok :: string where
  "v2_upload_ok = ''Dataset uploaded successfully! Select a search term to visualize.''"

definition v2_upload_bad :: string where
  "v2_upload_bad =
     ''Uploaded CSV must contain 'Search Term', 'Month', and 'Search Volume' columns.''"

definition v2_accept_upload :: "dataframe \<Rightarrow> dataframe \<Rightarrow> event list \<times> dataframe" where
  "v2_accept_upload df_search df_uploaded =
     (if has_required_columns df_uploaded then ([Success v2_upload_ok], df_uploaded)
      else ([Error v2_upload_bad], df_search))"

definition v2_upload :: "dataframe \<Rightarrow> string option \<Rightarrow> event list \<times> (exn + dataframe)" where
  "v2_upload df_search uploaded_file =
     (case uploaded_file of
        None \<Rightarrow> ([], Inr df_search)
      | Some text \<Rightarrow>
          (case read_csv text of
             Inl e \<Rightarrow> ([], Inl e)
           | Inr df_uploaded \<Rightarrow>
               (case v2_accept_upload df_search df_uploaded of (evs, df) \<Rightarrow> (evs, Inr df))))"

subsection \<open>Version 2: one run of the page\<close>

text \<open>
  \<open>series.unique().tolist()\<close>: the values in order of first appearance. Line 64 computes
  the options of the select box with it and raises \<open>KeyError\<close> when the table has no
  \<open>Search Term\<close> column.
\<close>

definition unique :: "'a list \<Rightarrow> 'a list" where
  "unique xs = rev (remdups (rev xs))"

definition search_terms :: "dataframe \<Rightarrow> exn + cell list" where
  "search_terms df_search =
     (case getitem df_search ''Search Term'' of Inl e \<Rightarrow> Inl e | Inr col \<Rightarrow> Inr (unique col))"

record v2_inputs =
  v2_selectbox :: string
  v2_custom_term :: string
  v2_uploaded_file :: "string option"

text \<open>Lines 62 to 127: everything after the table is loaded.\<close>

definition v2_sections :: "dataframe \<Rightarrow> v2_inputs \<Rightarrow> event list \<times> (exn + dataframe)" where
  "v2_sections df_search inp =
     (case search_terms df_search of
        Inl e \<Rightarrow> ([], Inl e)
      | Inr options \<Rightarrow>
          (case v2_search_volume df_search
                  (v2_selected_term (v2_selectbox inp) (v2_custom_term inp)) of
             (evs, Some e) \<Rightarrow> (evs, Inl e)
           | (evs, None) \<Rightarrow>
               (case v2_upload df_search (v2_uploaded_file inp) of
                  (evs', r) \<Rightarrow> (evs @ evs', r))))"

definition v2_pass ::
  "(files \<Rightarrow> files) \<Rightarrow> files \<Rightarrow> v2_inputs \<Rightarrow> event list \<times> (exn + dataframe)" where
  "v2_pass between fs inp =
     (case startup v2_sample_data between fs of
        (evs, Inl e) \<Rightarrow> (evs, Inl e)
      | (evs, Inr df_search) \<Rightarrow>
          (case v2_sections df_search inp of (evs', r) \<Rightarrow> (evs @ evs', r)))"

text \<open>The charts of a page log.\<close>

fun charts :: "event list \<Rightarrow> figure list" where
  "charts [] = []"
| "charts (PlotlyChart fig # evs) = fig # charts evs"
| "charts (ev # evs) = charts evs"

subsection \<open>Version 3: the local section, as written\<close>

definition v3_chart_title :: "string \<Rightarrow> string" where
  "v3_chart_title selected_local_term =
     ''Monthly Search Volume for '' @ quoted selected_local_term @ '' (Local Data)''"

definition v3_no_local_data :: "string \<Rightarrow> string" where
  "v3_no_local_data selected_local_term =
     ''No local data found for '' @ quoted selected_local_term
       @ ''. Please select another term.''"

text \<open>
  Lines 116 to 138 of the file. The term comes from a select box of its own. The
  section differs from its version 2 counterpart in the title, in the warning and in
  showing nothing for the empty term.
\<close>

definition v3_local :: "dataframe \<Rightarrow> string \<Rightarrow> run" where
  "v3_local df_search selected_local_term =
     (case search_terms df_search of
        Inl e \<Rightarrow> ([], Some e)
      | Inr options \<Rightarrow>
          if selected_local_term \<noteq> [] then
            (case filtered_df df_search selected_local_term of
               Inl e \<Rightarrow> ([], Some e)
             | Inr fdf \<Rightarrow>
                 if \<not> empty_df fdf then
                   (case px_line fdf ''Month'' ''Search Volume''
                           (v3_chart_title selected_local_term) of
                      Inl e \<Rightarrow> ([], Some e)
                    | Inr fig_search \<Rightarrow>
                        (case zero_click_impact fdf of
                           Inl e \<Rightarrow> ([PlotlyChart fig_search], Some e)
                         | Inr _ \<Rightarrow>
                             ([PlotlyChart fig_search, WriteImpact selected_local_term], None)))
                 else ([Warning (v3_no_local_data selected_local_term)], None))
          else ([], None))"

subsection \<open>Notions used to state the properties\<close>

text \<open>The month of a record. Months are compared as texts, character by character.\<close>

definition period :: "volume_record \<Rightarrow> string" where
  "period r = fst (snd r)"

text \<open>A Dataset whose rows are neither in month order nor free of repeated months.\<close>

definition unsorted_records :: "volume_record list" where
  "unsorted_records = [(''a'', ''2025-02'', 1), (''a'', ''2025-01'', 2), (''A'', ''2025-01'', 3)]"

text \<open>A Dataset with two spellings of one term.\<close>

definition mixed_case_records :: "volume_record list" where
  "mixed_case_records =
     [(''Best Laptops'', ''2025-01'', 120000), (''python tutorial'', ''2025-01'', 80000),
      (''best laptops'', ''2025-02'', 130000)]"

text \<open>
  A cell of the term column matches a query term case-insensitively: it is a text, and
  lowered it is the lowered query.
\<close>

definition cell_matches :: "string \<Rightarrow> cell \<Rightarrow> bool" where
  "cell_matches q c = (lower_cell c = StrCell (lower q))"

text \<open>
  A table with the three required columns whose terms are numbers, and the CSV text
  that \<open>read_csv\<close> reads as this table.
\<close>

definition numeric_terms_table :: dataframe where
  "numeric_terms_table =
     \<lparr>columns = required_columns,
      rows = [[IntCell 2024, StrCell ''2025-01'', IntCell 900]]\<rparr>"

text \<open>A table with a fourth column and a row whose term is missing.\<close>

definition regional_table :: dataframe where
  "regional_table =
     \<lparr>columns = [''Region'', ''Search Term'', ''Month'', ''Search Volume''],
      rows = [[StrCell ''US'', StrCell ''Best Laptops'', StrCell ''2025-01'', IntCell 120000],
              [StrCell ''US'', NaN, StrCell ''2025-02'', IntCell 70]]\<rparr>"

definition numeric_terms_csv :: string where
  "numeric_terms_csv =
     ''Search Term,Month,Search Volume'' @ [CHR 0x0A] @ ''2024,2025-01,900'' @ [CHR 0x0A]"

text \<open>
  Modelled from the spec: the message of its \<open>SchemaError\<close>, which the scripts do not
  contain.
\<close>

definition missing_required_column :: "string \<Rightarrow> string" where
  "missing_required_column col = ''missing required column: '' @ col"

text \<open>Two uploads, each without one of the required columns, and one with all three.\<close>

definition no_month_table :: dataframe where
  "no_month_table =
     \<lparr>columns = [''Search Term'', ''Search Volume''],
      rows = [[StrCell ''used cars'', IntCell 5000]]\<rparr>"

definition no_volume_table :: dataframe where
  "no_volume_table =
     \<lparr>columns = [''Search Term'', ''Month''],
      rows = [[StrCell ''used cars'', StrCell ''2025-01'']]\<rparr>"

definition used_cars_csv :: string where
  "used_cars_csv =
     ''Search Term,Month,Search Volume'' @ [CHR 0x0A] @ ''used cars,2025-01,5000'' @ [CHR 0x0A]"

text \<open>
  What can happen to the data file between the write and the read: it is removed, it is
  cut to nothing, it is overwritten with something that is not the table.
\<close>

definition delete_dataset_file :: "files \<Rightarrow> files" where
  "delete_dataset_file fs = fs(dataset_path := None)"

definition empty_dataset_file :: "files \<Rightarrow> files" where
  "empty_dataset_file fs = fs(dataset_path \<mapsto> [])"

definition garbage_dataset_file :: "files \<Rightarrow> files" where
  "garbage_dataset_file fs = fs(dataset_path \<mapsto> ''garbage'')"

definition numeric_dataset_file :: "files \<Rightarrow> files" where
  "numeric_dataset_file fs = fs(dataset_path \<mapsto> numeric_terms_csv)"

section \<open>Facts about the operations\<close>

subsection \<open>Lowering concrete terms\<close>

lemma lower_a: "lower ''A'' = ''a''" "lower ''a'' = ''a''"
  by (simp_all add: lower_def lower_char_def ascii_uppercase_def ascii_lowercase_def)

lemma lower_sample:
  "lower ''best laptops'' = ''best laptops''"
  "lower ''python tutorial'' = ''python tutorial''"
  "lower ''cheap flights'' = ''cheap flights''"
  "lower ''cheap hotels'' = ''cheap hotels''"
  "lower ''Best Laptops'' = ''best laptops''"
  by (simp_all add: lower_def lower_char_def ascii_uppercase_def ascii_lowercase_def)

lemma lower_mixed:
  "lower ''BEST LAPTOPS'' = ''best laptops''"
  by (simp add: lower_def lower_char_def ascii_uppercase_def ascii_lowercase_def)

subsection \<open>The sample tables and the filter on a Dataset\<close>

lemma DataFrame_v2: "DataFrame v2_sample_data = Inr (dataset v2_sample_records)"
  by (simp add: DataFrame_def v2_sample_data_def dataset_def v2_sample_records_def required_columns_def)

lemma DataFrame_v3: "DataFrame v3_sample_data = Inr (dataset v3_sample_records)"
  by (simp add: DataFrame_def v3_sample_data_def dataset_def v2_sample_records_def v3_sample_records_def required_columns_def)

lemma getitem_term: "getitem (dataset recs) ''Search Term'' = Inr (map (\<lambda>r. StrCell (fst r)) recs)"
  by (auto simp: getitem_def dataset_def required_columns_def cell_at_def)

lemma getitem_volume: "getitem (dataset recs) ''Search Volume'' = Inr (map (\<lambda>r. IntCell (snd (snd r))) recs)"
  by (auto simp: getitem_def dataset_def required_columns_def cell_at_def)

lemma str_lower_terms: "str_lower (map (\<lambda>r. StrCell (fst r)) recs) = Inr (map (\<lambda>r. StrCell (lower (fst r))) recs)"
  by (cases recs) (auto simp: str_lower_def)

lemma select_rows_dataset:
  "select_rows (dataset recs) (map P recs) = dataset (filter P recs)"
  by (induction recs) (auto simp: select_rows_def dataset_def)

lemma filtered_df_dataset:
  "filtered_df (dataset recs) q = Inr (dataset (filter (matches q) recs))"
proof -
  have "eq_scalar (map (\<lambda>r. StrCell (lower (fst r))) recs) (lower q) = map (matches q) recs"
    by (simp add: eq_scalar_def matches_def)
  then show ?thesis
    by (simp add: filtered_df_def getitem_term str_lower_terms select_rows_dataset)
qed

lemma empty_df_dataset: "empty_df (dataset recs) = (recs = [])"
  by (simp add: empty_df_def dataset_def required_columns_def)

lemma px_line_dataset:
  "px_line (dataset recs) ''Month'' ''Search Volume'' ttl =
     Inr \<lparr>fig_data = dataset recs, fig_x = ''Month'', fig_y = ''Search Volume'', fig_title = ttl\<rparr>"
  by (simp add: px_line_def dataset_def required_columns_def)

lemma zero_click_impact_dataset:
  "recs \<noteq> [] \<Longrightarrow> zero_click_impact (dataset recs) = Inr ()"
  by (cases recs) (auto simp: zero_click_impact_def getitem_volume list_ex_iff)

lemma search_terms_dataset:
  "search_terms (dataset recs) = Inr (unique (map (\<lambda>r. StrCell (fst r)) recs))"
  by (simp add: search_terms_def getitem_term)

lemma filter_matches_empty: "(filter (matches q) recs = []) = (\<not> list_ex (matches q) recs)"
  by (simp add: filter_empty_conv list_ex_iff)

lemma v2_search_volume_dataset:
  "v2_search_volume (dataset recs) q =
     (if q = [] then ([Info v2_select_prompt], None)
      else if list_ex (matches q) recs then
        ([PlotlyChart \<lparr>fig_data = dataset (filter (matches q) recs), fig_x = ''Month'',
                        fig_y = ''Search Volume'', fig_title = v2_chart_title q\<rparr>,
          WriteImpact q], None)
      else ([Warning (v2_no_data q)], None))"
  by (simp add: v2_search_volume_def filtered_df_dataset empty_df_dataset px_line_dataset
      zero_click_impact_dataset filter_matches_empty)

lemma v3_local_dataset:
  "v3_local (dataset recs) q =
     (if q = [] then ([], None)
      else if list_ex (matches q) recs then
        ([PlotlyChart \<lparr>fig_data = dataset (filter (matches q) recs), fig_x = ''Month'',
                        fig_y = ''Search Volume'', fig_title = v3_chart_title q\<rparr>,
          WriteImpact q], None)
      else ([Warning (v3_no_local_data q)], None))"
  by (simp add: v3_local_def search_terms_dataset filtered_df_dataset empty_df_dataset px_line_dataset
      zero_click_impact_dataset filter_matches_empty)

lemma sample_series_sorted:
  "sorted_wrt (<) (map period (filter (matches q) v2_sample_records))"
proof -
  define l where "l = lower q"
  have "sorted_wrt (<) (map period (filter (\<lambda>r. lower (fst r) = l) v2_sample_records))"
    by (cases "l = ''best laptops''"; cases "l = ''python tutorial''";
        cases "l = ''cheap flights''")
       (simp_all add: v2_sample_records_def lower_sample period_def)
  then show ?thesis
    by (simp add: l_def matches_def [abs_def])
qed

lemma sample3_series_sorted:
  "sorted_wrt (<) (map period (filter (matches q) v3_sample_records))"
proof -
  define l where "l = lower q"
  have "sorted_wrt (<) (map period (filter (\<lambda>r. lower (fst r) = l) v3_sample_records))"
    by (cases "l = ''best laptops''"; cases "l = ''python tutorial''")
       (simp_all add: v3_sample_records_def v2_sample_records_def lower_sample period_def)
  then show ?thesis
    by (simp add: l_def matches_def [abs_def])
qed

lemma select_rows_none:
  "\<not> list_ex (\<lambda>b. b) keep \<Longrightarrow> rows (select_rows df keep) = []"
  by (auto simp: select_rows_def filter_empty_conv list_ex_iff dest: set_zip_rightD)

lemma filtered_df_no_match:
  assumes "getitem df ''Search Term'' = Inr col" and "col = [] \<or> list_ex is_str col"
    and "\<not> list_ex (cell_matches q) col"
  shows "\<exists>fdf. filtered_df df q = Inr fdf \<and> empty_df fdf"
proof -
  have l: "str_lower col = Inr (map lower_cell col)"
    using assms(2) by (simp add: str_lower_def)
  have "\<not> list_ex (\<lambda>b. b) (eq_scalar (map lower_cell col) (lower q))"
    using assms(3) by (simp add: eq_scalar_def cell_matches_def list_ex_iff)
  then have "rows (select_rows df (eq_scalar (map lower_cell col) (lower q))) = []"
    by (rule select_rows_none)
  with assms(1) l show ?thesis
    by (simp add: filtered_df_def empty_df_def)
qed

subsection \<open>CSV text of the sample tables, and the start of the page\<close>

lemmas csv_write_defs = to_csv_def csv_line_def csv_field_def needs_quotes_def show_int_def
  show_nat.simps digit_chars_def
lemmas csv_read_defs = read_csv_def is_int_literal_def is_digit_def digit_chars_def digit_val_def
  read_nat_def read_int_def na_values_def read_text_cell_def pad_row_def int_column_def
  read_row_def Let_def

lemma to_csv_v3:
  "to_csv (dataset v3_sample_records) = ''Search Term,Month,Search Volume'' @ [CHR 0x0A]
  @ ''best laptops,2025-01,120000'' @ [CHR 0x0A] @ ''best laptops,2025-02,130000'' @ [CHR 0x0A]
  @ ''best laptops,2025-03,125000'' @ [CHR 0x0A] @ ''python tutorial,2025-01,80000'' @ [CHR 0x0A]
  @ ''python tutorial,2025-02,85000'' @ [CHR 0x0A] @ ''python tutorial,2025-03,90000'' @ [CHR 0x0A]"
  by (simp add: csv_write_defs dataset_def v3_sample_records_def v2_sample_records_def
      required_columns_def)

lemma to_csv_v2:
  "to_csv (dataset v2_sample_records) = ''Search Term,Month,Search Volume'' @ [CHR 0x0A]
  @ ''best laptops,2025-01,120000'' @ [CHR 0x0A] @ ''best laptops,2025-02,130000'' @ [CHR 0x0A]
  @ ''best laptops,2025-03,125000'' @ [CHR 0x0A] @ ''python tutorial,2025-01,80000'' @ [CHR 0x0A]
  @ ''python tutorial,2025-02,85000'' @ [CHR 0x0A] @ ''python tutorial,2025-03,90000'' @ [CHR 0x0A]
  @ ''cheap flights,2025-01,200000'' @ [CHR 0x0A] @ ''cheap flights,2025-02,210000'' @ [CHR 0x0A]
  @ ''cheap flights,2025-03,190000'' @ [CHR 0x0A]"
  by (simp add: csv_write_defs dataset_def v2_sample_records_def required_columns_def)

lemma read_back_v3: "read_csv (to_csv (dataset v3_sample_records)) = Inr (dataset v3_sample_records)"
  unfolding to_csv_v3
  by (simp add: csv_read_defs dataset_def v3_sample_records_def v2_sample_records_def
      required_columns_def)

lemma read_back_v2: "read_csv (to_csv (dataset v2_sample_records)) = Inr (dataset v2_sample_records)"
  unfolding to_csv_v2
  by (simp add: csv_read_defs dataset_def v2_sample_records_def required_columns_def)

lemma read_csv_empty: "read_csv [] = Inl EmptyDataError"
  by (simp add: read_csv_def)

lemma read_csv_garbage: "read_csv ''garbage'' = Inr \<lparr>columns = [''garbage''], rows = []\<rparr>"
  by (simp add: csv_read_defs)

lemma startup_sample:
  "DataFrame sample_data = Inr df \<Longrightarrow>
   startup sample_data between fs =
     (case between (fs(dataset_path \<mapsto> to_csv df)) dataset_path of
        None \<Rightarrow> ([Error dataset_not_found], Inr df)
      | Some text \<Rightarrow>
          (case read_csv text of Inr df' \<Rightarrow> ([], Inr df')
           | Inl e \<Rightarrow> if e = FileNotFoundError then ([Error dataset_not_found], Inr df) else ([], Inl e)))"
  by (simp add: startup_def load_dataset_def read_csv_file_def write_csv_file_def
      split: option.splits sum.splits)

subsection \<open>The upload and the page log of version 2\<close>

lemma read_used_cars:
  "read_csv used_cars_csv = Inr (dataset [(''used cars'', ''2025-01'', 5000)])"
  by (simp add: used_cars_csv_def csv_read_defs dataset_def required_columns_def)

lemma charts_v2_upload: "charts (fst (v2_upload df u)) = []"
  by (auto simp: v2_upload_def v2_accept_upload_def split: option.splits sum.splits)

lemma v2_sections_prefix:
  "\<exists>evs'. fst (v2_sections df inp) = fst (v2_sections df (inp\<lparr>v2_uploaded_file := None\<rparr>)) @ evs'
      \<and> charts evs' = []"
proof (cases "search_terms df")
  case (Inl e)
  then show ?thesis by (simp add: v2_sections_def)
next
  case (Inr opts)
  obtain evs r where s: "v2_search_volume df (v2_selected_term (v2_selectbox inp) (v2_custom_term inp)) = (evs, r)"
    by (cases "v2_search_volume df (v2_selected_term (v2_selectbox inp) (v2_custom_term inp))")
  show ?thesis
  proof (cases r)
    case (Some e)
    with Inr s show ?thesis by (simp add: v2_sections_def)
  next
    case None
    have n: "v2_upload df None = ([], Inr df)"
      by (simp add: v2_upload_def)
    obtain evs' r' where u: "v2_upload df (v2_uploaded_file inp) = (evs', r')"
      by (cases "v2_upload df (v2_uploaded_file inp)")
    have "charts evs' = []"
      using charts_v2_upload [of df "v2_uploaded_file inp"] u by simp
    with None Inr s n u show ?thesis
      by (simp add: v2_sections_def)
  qed
qed

lemma lower_used_cars: "lower ''used cars'' = ''used cars''"
  by (simp add: lower_def lower_char_def ascii_uppercase_def ascii_lowercase_def)

lemma no_used_cars: "\<not> list_ex (matches ''used cars'') v2_sample_records"
  by (simp add: matches_def v2_sample_records_def lower_sample lower_used_cars)

lemma has_required_dataset: "has_required_columns (dataset recs)"
  by (simp add: has_required_columns_def dataset_def required_columns_def)

lemma read_numeric_terms: "read_csv numeric_terms_csv = Inr numeric_terms_table"
  by (simp add: numeric_terms_csv_def numeric_terms_table_def csv_read_defs required_columns_def)

section \<open>Properties\<close>

subsection \<open>The upload (version 2)\<close>

text \<open>
  C2 (as stated): an upload without one of the three required columns is answered by a
  schema error that names the missing column. Version 2 answers every such upload with
  one fixed message that lists all three columns; it is not the message
  "missing required column: Month" for a table without \<open>Month\<close>, and a table without
  \<open>Search Volume\<close> gets the very same answer.
\<close>

theorem upload_message_counterexample:
  "\<not> has_required_columns no_month_table
   \<and> v2_accept_upload (dataset v2_sample_records) no_month_table
       = ([Error v2_upload_bad], dataset v2_sample_records)
   \<and> v2_upload_bad \<noteq> missing_required_column ''Month''
   \<and> v2_accept_upload (dataset v2_sample_records) no_volume_table
       = v2_accept_upload (dataset v2_sample_records) no_month_table"
  by (simp add: has_required_columns_def required_columns_def no_month_table_def
      no_volume_table_def v2_accept_upload_def v2_upload_bad_def missing_required_column_def)

text \<open>
  C2 (amended): for every uploaded table, the check passes exactly when each of
  \<open>Search Term\<close>, \<open>Month\<close> and \<open>Search Volume\<close> is one of its columns. When it fails,
  the page shows one fixed error message that lists the three required columns,
  whichever of them is missing, and the Dataset is left as it was. When it passes, the
  Dataset is replaced wholesale by the uploaded table and the success message is shown.
  The upload section does this with the table read from the uploaded text.
\<close>

theorem upload_all_or_nothing:
  "has_required_columns t = (\<forall>col \<in> set required_columns. col \<in> set (columns t))
   \<and> (\<not> has_required_columns t \<longrightarrow>
        v2_accept_upload df t = ([Error v2_upload_bad], df))
   \<and> (has_required_columns t \<longrightarrow>
        v2_accept_upload df t = ([Success v2_upload_ok], t))
   \<and> (read_csv content = Inr t \<longrightarrow>
        v2_upload df (Some content)
          = (fst (v2_accept_upload df t), Inr (snd (v2_accept_upload df t))))"
  by (simp add: has_required_columns_def list_all_iff v2_accept_upload_def v2_upload_def
      split: prod.splits)

theorem upload_all_or_nothing_witness:
  "v2_accept_upload (dataset v2_sample_records) no_month_table
     = ([Error v2_upload_bad], dataset v2_sample_records)
   \<and> v2_upload (dataset v2_sample_records) (Some used_cars_csv)
     = ([Success v2_upload_ok], Inr (dataset [(''used cars'', ''2025-01'', 5000)]))"
proof -
  have n: "\<not> has_required_columns no_month_table"
    by (simp add: has_required_columns_def required_columns_def no_month_table_def)
  have h: "has_required_columns (dataset [(''used cars'', ''2025-01'', 5000)])"
    by (rule has_required_dataset)
  show ?thesis
    using upload_all_or_nothing [where t = no_month_table and df = "dataset v2_sample_records"]
      upload_all_or_nothing [where t = "dataset [(''used cars'', ''2025-01'', 5000)]"
        and df = "dataset v2_sample_records" and content = used_cars_csv]
      n h read_used_cars
    by simp
qed

text \<open>
  C10: an upload made in a run should replace the Dataset for the runs that follow and
  leave the series already shown alone. Version 2 does the second and misses the
  first. Every run of its page builds the Dataset anew from the sample data and the
  data file before it looks a term up, and the upload section comes last, so no lookup
  ever reads an uploaded table. In a first run a table about "used cars" is uploaded
  and accepted, with the message "Dataset uploaded successfully! Select a search term
  to visualize."; in the next run, with the file still in the uploader and "used cars"
  typed as the term, the lookup is made in the sample Dataset again and the page shows
  "No data found".
\<close>

theorem upload_unseen_by_later_run:
  "v2_pass (\<lambda>fs. fs) Map.empty
      \<lparr>v2_selectbox = [], v2_custom_term = [], v2_uploaded_file = Some used_cars_csv\<rparr>
     = ([Info v2_select_prompt, Success v2_upload_ok],
        Inr (dataset [(''used cars'', ''2025-01'', 5000)]))
   \<and> v2_pass (\<lambda>fs. fs) (write_csv_file (dataset v2_sample_records) dataset_path Map.empty)
      \<lparr>v2_selectbox = [], v2_custom_term = ''used cars'',
        v2_uploaded_file = Some used_cars_csv\<rparr>
     = ([Warning (v2_no_data ''used cars''), Success v2_upload_ok],
        Inr (dataset [(''used cars'', ''2025-01'', 5000)]))"
  using no_used_cars
  by (simp add: v2_pass_def startup_sample [OF DataFrame_v2] read_back_v2 v2_sections_def
      search_terms_dataset v2_selected_term_def v2_search_volume_dataset v2_upload_def
      read_used_cars v2_accept_upload_def has_required_dataset)

text \<open>
  What version 2 does keep: within one run, what is shown before the upload section,
  the chart of the selected term included, is the same whether or not a file is
  uploaded in that run, and the upload section adds no chart. When the run loads the
  Dataset, the search-volume section ends without an exception and the upload is
  accepted, the page is the log of the load, then what the section shows for the
  Dataset as loaded, then the success message, and the run ends with the uploaded table
  as the value of \<open>df_search\<close>.
\<close>

lemma upload_leaves_shown_series:
  "(\<exists>evs'. fst (v2_pass between fs inp)
              = fst (v2_pass between fs (inp\<lparr>v2_uploaded_file := None\<rparr>)) @ evs'
            \<and> charts evs' = [])
   \<and> (startup v2_sample_data between fs = (evs_load, Inr df_loaded)
        \<and> search_terms df_loaded = Inr opts
        \<and> v2_search_volume df_loaded (v2_selected_term (v2_selectbox inp) (v2_custom_term inp))
            = (evs_series, None)
        \<and> v2_uploaded_file inp = Some content \<and> read_csv content = Inr up
        \<and> has_required_columns up \<longrightarrow>
          v2_pass between fs inp = (evs_load @ evs_series @ [Success v2_upload_ok], Inr up)
          \<and> v2_pass between fs (inp\<lparr>v2_uploaded_file := None\<rparr>) = (evs_load @ evs_series, Inr df_loaded))"
proof -
  have a: "\<exists>evs'. fst (v2_pass between fs inp)
              = fst (v2_pass between fs (inp\<lparr>v2_uploaded_file := None\<rparr>)) @ evs'
            \<and> charts evs' = []"
  proof (cases "startup v2_sample_data between fs")
    case (Pair evs r)
    show ?thesis
    proof (cases r)
      case (Inl e)
      with Pair show ?thesis by (simp add: v2_pass_def)
    next
      case (Inr df)
      obtain evs' where
        "fst (v2_sections df inp) = fst (v2_sections df (inp\<lparr>v2_uploaded_file := None\<rparr>)) @ evs'"
        "charts evs' = []"
        using v2_sections_prefix by blast
      with Pair Inr show ?thesis
        by (auto simp: v2_pass_def split: prod.splits)
    qed
  qed
  have b: "startup v2_sample_data between fs = (evs_load, Inr df_loaded)
        \<and> search_terms df_loaded = Inr opts
        \<and> v2_search_volume df_loaded (v2_selected_term (v2_selectbox inp) (v2_custom_term inp))
            = (evs_series, None)
        \<and> v2_uploaded_file inp = Some content \<and> read_csv content = Inr up
        \<and> has_required_columns up \<longrightarrow>
          v2_pass between fs inp = (evs_load @ evs_series @ [Success v2_upload_ok], Inr up)
          \<and> v2_pass between fs (inp\<lparr>v2_uploaded_file := None\<rparr>) = (evs_load @ evs_series, Inr df_loaded)"
    by (simp add: v2_pass_def v2_sections_def v2_upload_def v2_accept_upload_def)
  from a b show ?thesis by blast
qed

lemma upload_leaves_shown_series_example:
  "v2_pass (\<lambda>fs. fs) Map.empty
      \<lparr>v2_selectbox = ''best laptops'', v2_custom_term = [], v2_uploaded_file = Some used_cars_csv\<rparr>
     = ([PlotlyChart \<lparr>fig_data = dataset (take 3 v2_sample_records), fig_x = ''Month'',
                       fig_y = ''Search Volume'', fig_title = v2_chart_title ''best laptops''\<rparr>,
         WriteImpact ''best laptops'', Success v2_upload_ok],
        Inr (dataset [(''used cars'', ''2025-01'', 5000)]))
   \<and> v2_pass (\<lambda>fs. fs) Map.empty
      \<lparr>v2_selectbox = ''best laptops'', v2_custom_term = [], v2_uploaded_file = None\<rparr>
     = ([PlotlyChart \<lparr>fig_data = dataset (take 3 v2_sample_records), fig_x = ''Month'',
                       fig_y = ''Search Volume'', fig_title = v2_chart_title ''best laptops''\<rparr>,
         WriteImpact ''best laptops''],
        Inr (dataset v2_sample_records))"
proof -
  let ?inp = "\<lparr>v2_selectbox = ''best laptops'', v2_custom_term = [],
                v2_uploaded_file = Some used_cars_csv\<rparr>"
  let ?fig = "PlotlyChart \<lparr>fig_data = dataset (take 3 v2_sample_records), fig_x = ''Month'',
                       fig_y = ''Search Volume'', fig_title = v2_chart_title ''best laptops''\<rparr>"
  have s: "startup v2_sample_data (\<lambda>fs. fs) Map.empty = ([], Inr (dataset v2_sample_records))"
    by (simp add: startup_sample [OF DataFrame_v2] read_back_v2)
  have f: "filter (matches ''best laptops'') v2_sample_records = take 3 v2_sample_records"
    by (simp add: matches_def v2_sample_records_def lower_sample)
  have m: "list_ex (matches ''best laptops'') v2_sample_records"
    by (simp add: matches_def v2_sample_records_def lower_sample)
  have v: "v2_search_volume (dataset v2_sample_records)
             (v2_selected_term (v2_selectbox ?inp) (v2_custom_term ?inp))
           = ([?fig, WriteImpact ''best laptops''], None)"
    using m f by (simp add: v2_selected_term_def v2_search_volume_dataset)
  have h: "has_required_columns (dataset [(''used cars'', ''2025-01'', 5000)])"
    by (simp add: has_required_columns_def dataset_def required_columns_def)
  show ?thesis
    using upload_leaves_shown_series [where between = "\<lambda>fs. fs" and fs = Map.empty
        and inp = "?inp" and evs_load = "[]" and df_loaded = "dataset v2_sample_records"
        and opts = "unique (map (\<lambda>r. StrCell (fst r)) v2_sample_records)"
        and evs_series = "[?fig, WriteImpact ''best laptops'']" and content = used_cars_csv
        and up = "dataset [(''used cars'', ''2025-01'', 5000)]"]
      s v h read_used_cars search_terms_dataset [of v2_sample_records]
    by simp
qed

subsection \<open>The local lookup\<close>

text \<open>
  C4 (as stated): for every term that appears, case-insensitively, in the Dataset, the
  lookup returns a Series whose periods are sorted in ascending order and pairwise
  distinct. The filter line keeps the matching rows in the order of the table and sorts
  nothing: on a Dataset whose rows for the term are out of order and repeat a month, the
  chart gets them as they are.
\<close>

theorem unsorted_series_counterexample:
  "v2_search_volume (dataset unsorted_records) ''a''
     = ([PlotlyChart \<lparr>fig_data = dataset unsorted_records, fig_x = ''Month'',
                      fig_y = ''Search Volume'', fig_title = v2_chart_title ''a''\<rparr>,
         WriteImpact ''a''], None)
   \<and> \<not> sorted (map period unsorted_records)
   \<and> \<not> distinct (map period unsorted_records)"
  by (simp add: v2_search_volume_dataset unsorted_records_def matches_def lower_a period_def)

text \<open>
  C4 (amended): for every non-empty term with a case-insensitive match in the Dataset,
  the search-volume section of version 2 and the local section of version 3 show one
  chart of exactly the matching records, in the Dataset's own order, followed by the
  impact sentence; every record of it has the query's term up to letter case. The
  lookup neither sorts nor removes repeated months; for the two built-in sample
  Datasets the months of every such Series are strictly ascending.
\<close>

theorem present_term_found:
  "list_ex (matches q) recs \<Longrightarrow> q \<noteq> [] \<Longrightarrow>
     v2_search_volume (dataset recs) q
       = ([PlotlyChart \<lparr>fig_data = dataset (filter (matches q) recs), fig_x = ''Month'',
                         fig_y = ''Search Volume'', fig_title = v2_chart_title q\<rparr>,
           WriteImpact q], None)
     \<and> v3_local (dataset recs) q
       = ([PlotlyChart \<lparr>fig_data = dataset (filter (matches q) recs), fig_x = ''Month'',
                         fig_y = ''Search Volume'', fig_title = v3_chart_title q\<rparr>,
           WriteImpact q], None)
     \<and> (\<forall>r \<in> set (filter (matches q) recs). lower (fst r) = lower q)
     \<and> (recs = v2_sample_records \<or> recs = v3_sample_records \<longrightarrow>
          sorted_wrt (<) (map period (filter (matches q) recs)))"
  using sample_series_sorted [of q] sample3_series_sorted [of q]
  by (auto simp: v2_search_volume_dataset v3_local_dataset matches_def)

theorem present_term_found_witness:
  "v2_search_volume (dataset v2_sample_records) ''Best Laptops''
       = ([PlotlyChart \<lparr>fig_data = dataset (take 3 v2_sample_records), fig_x = ''Month'',
                         fig_y = ''Search Volume'', fig_title = v2_chart_title ''Best Laptops''\<rparr>,
           WriteImpact ''Best Laptops''], None)
   \<and> sorted_wrt (<) (map period (take 3 v2_sample_records))"
proof -
  have m: "list_ex (matches ''Best Laptops'') v2_sample_records"
    by (simp add: matches_def v2_sample_records_def lower_sample)
  have f: "filter (matches ''Best Laptops'') v2_sample_records = take 3 v2_sample_records"
    by (simp add: matches_def v2_sample_records_def lower_sample)
  show ?thesis
    using present_term_found [OF m, of ] f by simp
qed

text \<open>
  C5 (as stated): for every term without a case-insensitive match in the Dataset the
  lookup returns NotFound and has no failure path. The empty term matches no record of
  the sample Dataset, and for it the page shows its prompt, not the "No data found"
  warning: the section looks nothing up when no term is chosen. And the filter line
  does fail on a table whose terms are numbers, where \<open>.str\<close> raises \<open>AttributeError\<close>;
  such a table is what the page loads when the data file has been overwritten with
  numeric terms before it is read back.
\<close>

theorem empty_or_numeric_term_counterexample:
  "\<not> list_ex (matches []) v2_sample_records
   \<and> v2_search_volume (dataset v2_sample_records) [] = ([Info v2_select_prompt], None)
   \<and> v2_search_volume numeric_terms_table ''best laptops'' = ([], Some AttributeError)
   \<and> v2_pass numeric_dataset_file Map.empty
        \<lparr>v2_selectbox = [], v2_custom_term = ''best laptops'', v2_uploaded_file = None\<rparr>
       = ([], Inl AttributeError)"
proof -
  have a: "\<not> list_ex (matches []) v2_sample_records"
    by (simp add: matches_def v2_sample_records_def lower_sample lower_def)
  have b: "v2_search_volume (dataset v2_sample_records) [] = ([Info v2_select_prompt], None)"
    by (simp add: v2_search_volume_def)
  have c: "v2_search_volume numeric_terms_table ''best laptops'' = ([], Some AttributeError)"
    by (simp add: v2_search_volume_def filtered_df_def getitem_def numeric_terms_table_def
        required_columns_def cell_at_def str_lower_def)
  have s: "search_terms numeric_terms_table = Inr [IntCell 2024]"
    by (simp add: search_terms_def getitem_def numeric_terms_table_def required_columns_def
        cell_at_def unique_def)
  have d: "v2_pass numeric_dataset_file Map.empty
        \<lparr>v2_selectbox = [], v2_custom_term = ''best laptops'', v2_uploaded_file = None\<rparr>
       = ([], Inl AttributeError)"
    by (simp add: v2_pass_def startup_sample [OF DataFrame_v2] numeric_dataset_file_def
        read_numeric_terms v2_sections_def s v2_selected_term_def c)
  from a b c d show ?thesis by simp
qed

text \<open>
  C5 (amended): for every non-empty term, on a Dataset whose \<open>Search Term\<close> column
  holds text or has no rows, when no cell of that column matches the term
  case-insensitively the search-volume section shows the "No data found" warning and
  nothing else, and ends without an exception. This holds in particular on every
  Dataset of volume records in which no record matches the term.
\<close>

theorem absent_term_not_found:
  assumes "q \<noteq> []"
  shows "(getitem df ''Search Term'' = Inr col \<and> (col = [] \<or> list_ex is_str col)
            \<and> \<not> list_ex (cell_matches q) col \<longrightarrow>
          v2_search_volume df q = ([Warning (v2_no_data q)], None))
     \<and> (\<not> list_ex (matches q) recs \<longrightarrow>
          v2_search_volume (dataset recs) q = ([Warning (v2_no_data q)], None))"
proof -
  have g: "getitem df ''Search Term'' = Inr col \<and> (col = [] \<or> list_ex is_str col)
            \<and> \<not> list_ex (cell_matches q) col \<longrightarrow>
          v2_search_volume df q = ([Warning (v2_no_data q)], None)"
  proof
    assume h: "getitem df ''Search Term'' = Inr col \<and> (col = [] \<or> list_ex is_str col)
            \<and> \<not> list_ex (cell_matches q) col"
    then obtain fdf where "filtered_df df q = Inr fdf" "empty_df fdf"
      using filtered_df_no_match [of df col q] by blast
    with assms show "v2_search_volume df q = ([Warning (v2_no_data q)], None)"
      by (simp add: v2_search_volume_def)
  qed
  have t: "\<not> list_ex (matches q) recs \<longrightarrow>
          v2_search_volume (dataset recs) q = ([Warning (v2_no_data q)], None)"
    using assms by (simp add: v2_search_volume_dataset)
  from g t show ?thesis by simp
qed

theorem absent_term_not_found_witness:
  "v2_search_volume (dataset v2_sample_records) ''cheap hotels''
     = ([Warning (v2_no_data ''cheap hotels'')], None)
   \<and> v2_search_volume regional_table ''cheap hotels''
     = ([Warning (v2_no_data ''cheap hotels'')], None)"
proof -
  have m: "\<not> list_ex (matches ''cheap hotels'') v2_sample_records"
    by (simp add: matches_def v2_sample_records_def lower_sample)
  have g: "getitem regional_table ''Search Term'' = Inr [StrCell ''Best Laptops'', NaN]"
    by (simp add: getitem_def regional_table_def cell_at_def)
  have n: "\<not> list_ex (cell_matches ''cheap hotels'') [StrCell ''Best Laptops'', NaN]"
    by (simp add: cell_matches_def lower_sample)
  show ?thesis
    using absent_term_not_found [where q = "''cheap hotels''" and recs = v2_sample_records
        and df = regional_table and col = "[StrCell ''Best Laptops'', NaN]"] m g n
    by simp
qed

text \<open>
  C9: the filter lowers the query term and every term of the Dataset. So when the
  Dataset holds two rows whose terms differ only in letter case, a lookup of that term
  in any spelling returns both rows in one Series, and the records of a Series agree
  on their term up to letter case only: in the example below the two records of the
  Series carry different term texts.
\<close>

theorem case_variants_share_series:
  "r1 \<in> set recs \<Longrightarrow> r2 \<in> set recs \<Longrightarrow> lower (fst r1) = lower (fst r2) \<Longrightarrow>
   lower q = lower (fst r1) \<Longrightarrow>
     filtered_df (dataset recs) q = Inr (dataset (filter (matches q) recs))
     \<and> r1 \<in> set (filter (matches q) recs) \<and> r2 \<in> set (filter (matches q) recs)
     \<and> (\<forall>r \<in> set (filter (matches q) recs). lower (fst r) = lower q)"
  by (simp add: filtered_df_dataset matches_def)

theorem case_variants_share_series_witness:
  "filtered_df (dataset mixed_case_records) ''BEST LAPTOPS''
     = Inr (dataset [(''Best Laptops'', ''2025-01'', 120000), (''best laptops'', ''2025-02'', 130000)])
   \<and> ''Best Laptops'' \<noteq> ''best laptops''"
proof -
  have f: "filter (matches ''BEST LAPTOPS'') mixed_case_records
     = [(''Best Laptops'', ''2025-01'', 120000), (''best laptops'', ''2025-02'', 130000)]"
    by (simp add: matches_def mixed_case_records_def lower_sample lower_mixed)
  show ?thesis
    using case_variants_share_series [of "(''Best Laptops'', ''2025-01'', 120000)"
        mixed_case_records "(''best laptops'', ''2025-02'', 130000)" "''BEST LAPTOPS''"] f
    by (simp add: mixed_case_records_def lower_sample lower_mixed)
qed

subsection \<open>The data file\<close>

text \<open>
  C7 (as stated): when the data file is absent or corrupt at the time it is read back,
  the page falls back to the sample data and shows a warning. Only
  \<open>FileNotFoundError\<close> is handled. When the file has been cut to nothing between the
  write and the read, \<open>read_csv\<close> raises \<open>EmptyDataError\<close>, which ends the run with
  nothing shown; when it has been overwritten with another text that still parses, the
  parsed table is taken as the Dataset without any message.
\<close>

theorem corrupt_file_counterexample:
  "startup v2_sample_data empty_dataset_file Map.empty = ([], Inl EmptyDataError)
   \<and> startup v3_sample_data empty_dataset_file Map.empty = ([], Inl EmptyDataError)
   \<and> startup v2_sample_data garbage_dataset_file Map.empty
       = ([], Inr \<lparr>columns = [''garbage''], rows = []\<rparr>)"
  by (simp add: startup_sample [OF DataFrame_v2] startup_sample [OF DataFrame_v3]
      empty_dataset_file_def garbage_dataset_file_def read_csv_empty read_csv_garbage)

text \<open>
  C7 (amended): when the data file is absent at the time it is read back, the page
  falls back to the in-memory sample Dataset and shows the message "Search volume
  dataset not found. Using sample data." (versions 2 and 3).
\<close>

theorem missing_file_falls_back:
  "(between (write_csv_file (dataset v2_sample_records) dataset_path fs) dataset_path = None \<longrightarrow>
      startup v2_sample_data between fs
        = ([Error dataset_not_found], Inr (dataset v2_sample_records)))
   \<and> (between (write_csv_file (dataset v3_sample_records) dataset_path fs) dataset_path = None \<longrightarrow>
      startup v3_sample_data between fs
        = ([Error dataset_not_found], Inr (dataset v3_sample_records)))"
  by (simp add: startup_sample [OF DataFrame_v2] startup_sample [OF DataFrame_v3]
      write_csv_file_def)

theorem missing_file_falls_back_witness:
  "startup v2_sample_data delete_dataset_file Map.empty
     = ([Error dataset_not_found], Inr (dataset v2_sample_records))
   \<and> startup v3_sample_data delete_dataset_file Map.empty
     = ([Error dataset_not_found], Inr (dataset v3_sample_records))"
  using missing_file_falls_back [of delete_dataset_file Map.empty]
  by (simp add: delete_dataset_file_def)

text \<open>
  C8: writing the sample Dataset to CSV text and reading the text back gives the same
  table: the same columns in the same order and the same rows with the same values.
  So the start of the page, when nothing touches the file between the write and the
  read, ends with the sample Dataset and shows nothing (versions 2 and 3).
\<close>

theorem sample_round_trip:
  "read_csv (to_csv (dataset v2_sample_records)) = Inr (dataset v2_sample_records)
   \<and> read_csv (to_csv (dataset v3_sample_records)) = Inr (dataset v3_sample_records)
   \<and> startup v2_sample_data (\<lambda>fs. fs) fs = ([], Inr (dataset v2_sample_records))
   \<and> startup v3_sample_data (\<lambda>fs. fs) fs = ([], Inr (dataset v3_sample_records))"
  by (simp add: startup_sample [OF DataFrame_v2] startup_sample [OF DataFrame_v3]
      read_back_v2 read_back_v3)

end
